theory Spec2Isabelle
  imports Complex_Main "HOL-Library.Stream" "HOL-Library.Extended_Nat"
begin

unbundle bit_operations_syntax

section \<open>Block code engine: \<open>js/hamming.js\<close>\<close>

text \<open>
  JavaScript arrays of numbers are lists of integers. Both \<open>throw new Error(msg)\<close> sites
  of \<open>hamming.js\<close> become \<open>Inl (Error msg)\<close>; the code has no other error class.
\<close>

datatype error = Error string

definition generatorMatrix :: "int list list" where
  "generatorMatrix =
     [[1, 1, 0, 1],
      [1, 0, 1, 1],
      [1, 0, 0, 0],
      [0, 1, 1, 1],
      [0, 1, 0, 0],
      [0, 0, 1, 0],
      [0, 0, 0, 1]]"

definition parityCheckMatrix :: "int list list" where
  "parityCheckMatrix =
     [[1, 0, 1, 0, 1, 0, 1],
      [0, 1, 1, 0, 0, 1, 1],
      [0, 0, 0, 1, 1, 1, 1]]"

text \<open>The lookup object \<open>syndromeToErrorPosition\<close>; a missing key reads \<open>undefined\<close>,
  which is \<open>None\<close> here.\<close>

definition syndromeToErrorPosition :: "int \<Rightarrow> int option" where
  "syndromeToErrorPosition =
     map_of [(0, -1), (1, 0), (2, 1), (3, 2), (4, 3), (5, 4), (6, 5), (7, 6)]"

definition validateDataBits :: "int list \<Rightarrow> bool" where
  "validateDataBits dataBits \<longleftrightarrow>
     length dataBits = 4 \<and> list_all (\<lambda>bit. bit = 0 \<or> bit = 1) dataBits"

definition validateCodeword :: "int list \<Rightarrow> bool" where
  "validateCodeword codeword \<longleftrightarrow>
     length codeword = 7 \<and> list_all (\<lambda>bit. bit = 0 \<or> bit = 1) codeword"

text \<open>\<open>encode\<close>: for each of the 7 rows \<open>i\<close>, \<open>bit\<close> starts at 0 and is xor-ed with
  \<open>generatorMatrix[i][j] * dataBits[j]\<close> for \<open>j = 0..3\<close>.\<close>

definition encode :: "int list \<Rightarrow> error + int list" where
  "encode dataBits =
     (if \<not> validateDataBits dataBits
      then Inl (Error ''Input must be array of exactly 4 bits (0 or 1)'')
      else Inr (map (\<lambda>i. fold (\<lambda>j bit. bit XOR (generatorMatrix ! i ! j * dataBits ! j))
                              [0..<4] 0)
                    [0..<7]))"

definition calculateSyndrome :: "int list \<Rightarrow> int list" where
  "calculateSyndrome codeword =
     map (\<lambda>i. fold (\<lambda>j bit. bit XOR (parityCheckMatrix ! i ! j * codeword ! j)) [0..<7] 0)
         [0..<3]"

definition syndromeToInteger :: "int list \<Rightarrow> int" where
  "syndromeToInteger syndrome = syndrome ! 0 * 1 + syndrome ! 1 * 2 + syndrome ! 2 * 4"

record decode_result =
  dataBits :: "int list"
  correctedCodeword :: "int list"
  errorDetected :: bool
  errorPosition :: "int option"
  syndrome :: "int list"
  syndromeValue :: int

text \<open>
  \<open>correctedCodeword[errorPosition] ^= 1\<close>. The table only yields indices 0..6 (or -1, for
  which the write is skipped by the caller); for \<open>undefined\<close> or an index outside the array
  no element of the array changes.
\<close>

definition flipAt :: "int list \<Rightarrow> int option \<Rightarrow> int list" where
  "flipAt codeword pos =
     (case pos of
        None \<Rightarrow> codeword
      | Some p \<Rightarrow>
          if 0 \<le> p \<and> nat p < length codeword
          then codeword[nat p := (codeword ! nat p) XOR 1]
          else codeword)"

definition decode :: "int list \<Rightarrow> error + decode_result" where
  "decode codeword =
     (if \<not> validateCodeword codeword
      then Inl (Error ''Input must be array of exactly 7 bits (0 or 1)'')
      else
        let syn = calculateSyndrome codeword;
            synValue = syndromeToInteger syn;
            errPos = syndromeToErrorPosition synValue;
            errDetected = (errPos \<noteq> Some (- 1));
            corrected = (if errDetected then flipAt codeword errPos else codeword)
        in Inr \<lparr> dataBits = [corrected ! 2, corrected ! 4, corrected ! 5, corrected ! 6],
                 correctedCodeword = corrected,
                 errorDetected = errDetected,
                 errorPosition = errPos,
                 syndrome = syn,
                 syndromeValue = synValue \<rparr>)"

text \<open>
  \<open>injectErrors\<close> draws \<open>Math.random()\<close> once per position, in order, and flips the bit
  when the draw is below \<open>errorRate\<close>. The random source is a stream of draws; the rest
  of the stream is returned. \<open>Math.random()\<close> yields values in \<open>[0, 1)\<close>.
\<close>

fun injectErrors :: "int list \<Rightarrow> real \<Rightarrow> real stream \<Rightarrow> int list \<times> real stream" where
  "injectErrors [] errorRate g = ([], g)"
| "injectErrors (b # bs) errorRate g =
     (let b' = (if shd g < errorRate then b XOR 1 else b);
          (bs', g') = injectErrors bs errorRate (stl g)
      in (b' # bs', g'))"

definition unit_draws :: "real stream \<Rightarrow> bool" where
  "unit_draws g \<longleftrightarrow> sset g \<subseteq> {0..<1}"

text \<open>\<open>hammingDistance\<close> runs over the indices of \<open>word1\<close>; past the end of \<open>word2\<close> the
  comparison \<open>word1[i] !== undefined\<close> is true.\<close>

fun hammingDistance :: "int list \<Rightarrow> int list \<Rightarrow> nat" where
  "hammingDistance [] word2 = 0"
| "hammingDistance (a # word1) [] = Suc (hammingDistance word1 [])"
| "hammingDistance (a # word1) (b # word2) =
     (if a \<noteq> b then Suc (hammingDistance word1 word2) else hammingDistance word1 word2)"

text \<open>A codebook entry; its \<open>binary\<close> display string is not modelled.\<close>

record codebook_entry =
  input :: "int list"
  codeword :: "int list"

definition generateCodebook :: "error + codebook_entry list" where
  "generateCodebook =
     fold (\<lambda>i acc.
             case acc of
               Inl e \<Rightarrow> Inl e
             | Inr codebook \<Rightarrow>
                 (let bits = [drop_bit 3 (int i) AND 1, drop_bit 2 (int i) AND 1,
                              drop_bit 1 (int i) AND 1, int i AND 1]
                  in case encode bits of
                       Inl e \<Rightarrow> Inl e
                     | Inr cw \<Rightarrow> Inr (codebook @ [\<lparr> input = bits, codeword = cw \<rparr>])))
          [0..<16] (Inr [])"

text \<open>\<open>calculateMinimumDistance\<close>: \<open>minDistance\<close> starts at \<open>Infinity\<close> and takes
  \<open>Math.min\<close> with the distance of every pair \<open>i < j\<close>.\<close>

definition calculateMinimumDistance :: "error + enat" where
  "calculateMinimumDistance =
     (case generateCodebook of
        Inl e \<Rightarrow> Inl e
      | Inr codebook \<Rightarrow>
          Inr (fold (\<lambda>i minDistance.
                       fold (\<lambda>j minDistance.
                               min minDistance
                                 (enat (hammingDistance (codeword (codebook ! i))
                                                        (codeword (codebook ! j)))))
                            [i + 1..<length codebook] minDistance)
                    [0..<length codebook] \<infinity>))"

text \<open>Flipping one array element, as the tests do with \<open>corrupted[errorPos] ^= 1\<close>.\<close>

definition flipBitAt :: "int list \<Rightarrow> nat \<Rightarrow> int list" where
  "flipBitAt c p = c[p := (c ! p) XOR 1]"

section \<open>Consistency solver: class \<open>RetrocausalFixedPointSolver\<close>\<close>

text \<open>
  JavaScript numbers are naturals or integers where the code counts, and reals for
  probabilities, tolerances and errors; rounding is not modelled (the convergence errors
  are multiples of 1/4, which binary floating point represents exactly). \<open>xreal\<close> is a
  number that may be \<open>Infinity\<close>, as the initial \<open>convergenceError\<close> is.
\<close>

datatype xreal = Finite real | Infinity

fun xle :: "xreal \<Rightarrow> real \<Rightarrow> bool" where
  "xle (Finite e) t = (e \<le> t)"
| "xle Infinity t = False"

fun xpos :: "xreal \<Rightarrow> bool" where
  "xpos (Finite e) = (0 < e)"
| "xpos Infinity = True"

text \<open>The \<open>params\<close> argument: \<open>None\<close> is an absent key. The merged \<open>config\<close> is
  \<open>{...this.defaultParams, ...params}\<close>; no method assigns \<open>defaultParams\<close>.\<close>

record params =
  p_maxIterations :: "int option"
  p_convergenceTolerance :: "real option"
  p_errorRate :: "real option"
  p_dampingFactor :: "real option"
  p_enableAdaptiveStep :: "bool option"

record config =
  maxIterations :: int
  convergenceTolerance :: real
  errorRate :: real
  dampingFactor :: real
  enableAdaptiveStep :: bool

definition defaultParams :: config where
  "defaultParams = \<lparr> maxIterations = 100, convergenceTolerance = 1 / 1000000,
                      errorRate = 5 / 100, dampingFactor = 1 / 2, enableAdaptiveStep = True \<rparr>"

definition mergeParams :: "config \<Rightarrow> params \<Rightarrow> config" where
  "mergeParams dflt ps =
     \<lparr> maxIterations = (case p_maxIterations ps of None \<Rightarrow> maxIterations dflt | Some v \<Rightarrow> v),
       convergenceTolerance =
         (case p_convergenceTolerance ps of None \<Rightarrow> convergenceTolerance dflt | Some v \<Rightarrow> v),
       errorRate = (case p_errorRate ps of None \<Rightarrow> errorRate dflt | Some v \<Rightarrow> v),
       dampingFactor = (case p_dampingFactor ps of None \<Rightarrow> dampingFactor dflt | Some v \<Rightarrow> v),
       enableAdaptiveStep =
         (case p_enableAdaptiveStep ps of None \<Rightarrow> enableAdaptiveStep dflt | Some v \<Rightarrow> v) \<rparr>"

record evolution_result =
  ev_inputData :: "int list"
  ev_encodedState :: "int list"
  ev_transmittedState :: "int list"
  ev_decodingResult :: decode_result
  ev_finalData :: "int list"
  ev_errorsCorrected :: bool
  ev_errorPosition :: "int option"

record iteration_record =
  h_iteration :: nat
  h_state :: "int list"
  h_convergenceError :: xreal
  h_errorsCorrected :: bool
  h_errorPosition :: "int option"
  h_encodedState :: "int list"
  h_transmittedState :: "int list"

record statistics_rec =
  totalRuns :: nat
  successfulConvergences :: nat
  averageIterations :: real
  convergenceRates :: "real list"
  errorCorrectionEffectiveness :: "real list"

text \<open>The solver object \<open>this\<close>. \<open>startTime\<close> (wall-clock time) is left out.\<close>

record solver =
  convergenceHistory :: "iteration_record list"
  currentIteration :: nat
  isConverged :: bool
  convergenceError :: xreal
  statistics :: statistics_rec

definition newSolver :: solver where
  "newSolver = \<lparr> convergenceHistory = [], currentIteration = 0, isConverged = False,
                  convergenceError = Infinity,
                  statistics = \<lparr> totalRuns = 0, successfulConvergences = 0,
                                 averageIterations = 0, convergenceRates = [],
                                 errorCorrectionEffectiveness = [] \<rparr> \<rparr>"

definition simulateTemporalTransmission ::
    "int list \<Rightarrow> real \<Rightarrow> real stream \<Rightarrow> int list \<times> real stream" where
  "simulateTemporalTransmission st rate g = injectErrors st rate g"

text \<open>One cycle: encode, transmit with noise, decode. An exception of \<open>encode\<close> or
  \<open>decode\<close> propagates.\<close>

definition applySingleEvolutionCycle ::
    "int list \<Rightarrow> config \<Rightarrow> real stream \<Rightarrow> (error + evolution_result) \<times> real stream" where
  "applySingleEvolutionCycle inputData cfg g =
     (case encode inputData of
        Inl e \<Rightarrow> (Inl e, g)
      | Inr encoded \<Rightarrow>
          (case simulateTemporalTransmission encoded (errorRate cfg) g of
             (transmitted, g') \<Rightarrow>
               (case decode transmitted of
                  Inl e \<Rightarrow> (Inl e, g')
                | Inr dec \<Rightarrow>
                    (Inr \<lparr> ev_inputData = inputData, ev_encodedState = encoded,
                           ev_transmittedState = transmitted, ev_decodingResult = dec,
                           ev_finalData = dataBits dec,
                           ev_errorsCorrected = errorDetected dec,
                           ev_errorPosition = errorPosition dec \<rparr>, g'))))"

text \<open>The number of indices of \<open>currentState\<close> at which the two states differ; an index
  past the end of \<open>previousState\<close> reads \<open>undefined\<close> and differs.\<close>

fun differences :: "int list \<Rightarrow> int list \<Rightarrow> nat" where
  "differences [] previousState = 0"
| "differences (c # cs) [] = Suc (differences cs [])"
| "differences (c # cs) (p # ps) =
     (if c \<noteq> p then Suc (differences cs ps) else differences cs ps)"

text \<open>For an empty \<open>currentState\<close> JavaScript yields \<open>NaN\<close> (0/0); the solver only calls
  this with the four bits a decode returned.\<close>

definition calculateConvergenceError :: "int list \<Rightarrow> int list option \<Rightarrow> xreal" where
  "calculateConvergenceError currentState previousState =
     (case previousState of
        None \<Rightarrow> Infinity
      | Some prev \<Rightarrow> Finite (real (differences currentState prev) / real (length currentState)))"

text \<open>Damping: one draw for every index at which the states differ. The two states have
  equal length at the only call site; past the end of \<open>previousState\<close> the new value is
  kept here.\<close>

fun applyAdaptiveStep ::
    "int list \<Rightarrow> int list \<Rightarrow> config \<Rightarrow> real stream \<Rightarrow> int list \<times> real stream" where
  "applyAdaptiveStep [] previousState cfg g = ([], g)"
| "applyAdaptiveStep (c # cs) [] cfg g =
     (let (rest, g') = applyAdaptiveStep cs [] cfg (stl g) in (c # rest, g'))"
| "applyAdaptiveStep (c # cs) (p # ps) cfg g =
     (if c \<noteq> p
      then (let v = (if shd g < 1 - dampingFactor cfg then c else p);
                (rest, g') = applyAdaptiveStep cs ps cfg (stl g)
            in (v # rest, g'))
      else (let (rest, g') = applyAdaptiveStep cs ps cfg g in (c # rest, g')))"

definition recordIterationStep ::
    "solver \<Rightarrow> int list \<Rightarrow> xreal \<Rightarrow> evolution_result \<Rightarrow> solver" where
  "recordIterationStep this currentData err ev =
     this\<lparr> convergenceHistory := convergenceHistory this @
             [\<lparr> h_iteration = currentIteration this, h_state = currentData,
                h_convergenceError = err, h_errorsCorrected = ev_errorsCorrected ev,
                h_errorPosition = ev_errorPosition ev,
                h_encodedState = ev_encodedState ev,
                h_transmittedState = ev_transmittedState ev \<rparr>] \<rparr>"

definition resetIterationState :: "solver \<Rightarrow> solver" where
  "resetIterationState this =
     this\<lparr> convergenceHistory := [], currentIteration := 0, isConverged := False,
           convergenceError := Infinity \<rparr>"

definition updateStatistics :: "solver \<Rightarrow> solver" where
  "updateStatistics this =
     (let st = statistics this;
          st1 = st\<lparr> totalRuns := totalRuns st + 1 \<rparr>;
          st2 = (if isConverged this
                 then st1\<lparr> successfulConvergences := successfulConvergences st1 + 1 \<rparr>
                 else st1);
          alpha = (1 / 10 :: real)
      in this\<lparr> statistics := st2\<lparr> averageIterations :=
                  alpha * (real (currentIteration this) + 1) +
                  (1 - alpha) * averageIterations st2 \<rparr> \<rparr>)"

text \<open>
  The \<open>for\<close> loop of \<open>solveFixedPoint\<close>. The loop counter is \<open>this.currentIteration\<close>;
  \<open>break\<close> leaves it as it is, a completed pass increments it. The result is the last
  \<open>currentData\<close>, or the exception thrown inside the cycle.
\<close>

function solve_loop ::
    "config \<Rightarrow> solver \<Rightarrow> int list \<Rightarrow> real stream \<Rightarrow> (error + int list) \<times> solver \<times> real stream" where
  "solve_loop cfg this currentData g =
     (if int (currentIteration this) < maxIterations cfg
      then
        (let previousData = currentData in
         case applySingleEvolutionCycle currentData cfg g of
           (Inl e, g1) \<Rightarrow> (Inl e, this, g1)
         | (Inr ev, g1) \<Rightarrow>
             (let currentData1 = ev_finalData ev;
                  err = calculateConvergenceError currentData1 (Some previousData);
                  this1 = this\<lparr> convergenceError := err \<rparr>;
                  this2 = recordIterationStep this1 currentData1 err ev
              in if xle err (convergenceTolerance cfg)
                 then (Inr currentData1, this2\<lparr> isConverged := True \<rparr>, g1)
                 else
                   (case (if enableAdaptiveStep cfg
                          then applyAdaptiveStep currentData1 previousData cfg g1
                          else (currentData1, g1)) of
                      (currentData2, g2) \<Rightarrow>
                        solve_loop cfg
                          (this2\<lparr> currentIteration := Suc (currentIteration this) \<rparr>)
                          currentData2 g2)))
      else (Inr currentData, this, g))"
  by pat_completeness auto
termination
  by (relation "measure (\<lambda>(cfg, this, currentData, g).
                   nat (maxIterations cfg - int (currentIteration this)))") auto

text \<open>
  \<open>Math.log(e_curr / e_prev)\<close> when it is finite: with an \<open>Infinity\<close> operand the
  quotient is 0, \<open>Infinity\<close> or \<open>NaN\<close>, and \<open>isFinite(rate) && rate < 0\<close> is false.
  The logarithm is the real one.
\<close>

fun log_ratio :: "xreal \<Rightarrow> xreal \<Rightarrow> real option" where
  "log_ratio (Finite e_curr) (Finite e_prev) = Some (ln (e_curr / e_prev))"
| "log_ratio e_curr e_prev = None"

definition calculateConvergenceRate :: "solver \<Rightarrow> real" where
  "calculateConvergenceRate this =
     (let h = convergenceHistory this in
      if length h < 3 then 0
      else
        (case fold (\<lambda>i (totalRateSum, validRates).
                      let e_prev = h_convergenceError (h ! (i - 1));
                          e_curr = h_convergenceError (h ! i)
                      in if xpos e_prev \<and> xpos e_curr
                         then (case log_ratio e_curr e_prev of
                                 None \<Rightarrow> (totalRateSum, validRates)
                               | Some rate \<Rightarrow>
                                   if rate < 0
                                   then (totalRateSum + \<bar>rate\<bar>, Suc validRates)
                                   else (totalRateSum, validRates))
                         else (totalRateSum, validRates))
                   [2..<length h] (0, 0 :: nat) of
           (totalRateSum, validRates) \<Rightarrow>
             if validRates > 0 then totalRateSum / real validRates else 0))"

text \<open>\<open>averageErrorsPerIteration\<close> is \<open>NaN\<close> (0/0) for an empty history: \<open>None\<close>.\<close>

record ec_stats =
  totalErrorsDetected :: nat
  errorsCorrected :: nat
  correctionEfficiency :: real
  averageErrorsPerIteration :: "real option"

definition analyzeErrorCorrection :: "solver \<Rightarrow> ec_stats" where
  "analyzeErrorCorrection this =
     (case fold (\<lambda>step (totalErrors, correctedErrors).
                   if h_errorsCorrected step
                   then (Suc totalErrors, Suc correctedErrors)
                   else (totalErrors, correctedErrors))
                (convergenceHistory this) (0 :: nat, 0 :: nat) of
        (totalErrors, correctedErrors) \<Rightarrow>
          \<lparr> totalErrorsDetected = totalErrors,
            errorsCorrected = correctedErrors,
            correctionEfficiency =
              (if totalErrors > 0 then real correctedErrors / real totalErrors else 1),
            averageErrorsPerIteration =
              (if convergenceHistory this = [] then None
               else Some (real totalErrors / real (length (convergenceHistory this)))) \<rparr>)"

definition estimateMemoryUsage :: "solver \<Rightarrow> nat" where
  "estimateMemoryUsage this = length (convergenceHistory this) * 100"

text \<open>The solution report; \<open>computationTime\<close> (wall-clock time) is left out.\<close>

record report =
  finalState :: "int list"
  converged :: bool
  iterations :: nat
  finalError :: xreal
  parameters :: config
  r_convergenceHistory :: "iteration_record list"
  convergenceRate :: real
  errorCorrectionStats :: ec_stats
  memoryUsage :: nat

definition createSolutionReport :: "solver \<Rightarrow> int list \<Rightarrow> config \<Rightarrow> report" where
  "createSolutionReport this finalData cfg =
     \<lparr> finalState = finalData,
       converged = isConverged this,
       iterations = currentIteration this + 1,
       finalError = convergenceError this,
       parameters = cfg,
       r_convergenceHistory = convergenceHistory this,
       convergenceRate = calculateConvergenceRate this,
       errorCorrectionStats = analyzeErrorCorrection this,
       memoryUsage = estimateMemoryUsage this \<rparr>"

text \<open>\<open>solveFixedPoint\<close>: the outcome (report or exception), the solver object after the
  call, and the rest of the random source.\<close>

definition solveFixedPoint ::
    "solver \<Rightarrow> int list \<Rightarrow> params \<Rightarrow> real stream \<Rightarrow> (error + report) \<times> solver \<times> real stream" where
  "solveFixedPoint this initialData ps g =
     (let cfg = mergeParams defaultParams ps;
          this0 = resetIterationState this
      in case solve_loop cfg this0 initialData g of
           (Inl e, this1, g1) \<Rightarrow> (Inl e, this1, g1)
         | (Inr currentData, this1, g1) \<Rightarrow>
             (let this2 = updateStatistics this1
              in (Inr (createSolutionReport this2 currentData cfg), this2, g1)))"

record status =
  s_currentIteration :: nat
  s_isConverged :: bool
  s_convergenceError :: xreal
  s_historyLength :: nat
  s_totalRuns :: nat
  s_successRate :: real

definition getStatus :: "solver \<Rightarrow> status" where
  "getStatus this =
     \<lparr> s_currentIteration = currentIteration this,
       s_isConverged = isConverged this,
       s_convergenceError = convergenceError this,
       s_historyLength = length (convergenceHistory this),
       s_totalRuns = totalRuns (statistics this),
       s_successRate =
         (if totalRuns (statistics this) > 0
          then real (successfulConvergences (statistics this)) / real (totalRuns (statistics this))
          else 0) \<rparr>"

definition noParams :: params where
  "noParams = \<lparr> p_maxIterations = None, p_convergenceTolerance = None, p_errorRate = None,
                 p_dampingFactor = None, p_enableAdaptiveStep = None \<rparr>"

section \<open>Notions used to state the properties\<close>

text \<open>The solver object as an invocation leaves it.\<close>

definition solver_after :: "solver \<Rightarrow> int list \<Rightarrow> params \<Rightarrow> real stream \<Rightarrow> solver" where
  "solver_after this d ps g = fst (snd (solveFixedPoint this d ps g))"

text \<open>
  The consecutive pairs \<open>(e\<^bsub>i-1\<^esub>, e\<^bsub>i\<^esub>)\<close> of convergence errors whose later member
  belongs to the third iteration or a later one (array index 2 and up).
\<close>

definition consecutive_errors :: "xreal list \<Rightarrow> (xreal \<times> xreal) list" where
  "consecutive_errors es = zip (drop 1 es) (drop 2 es)"

text \<open>
  The convergence rate as the specification words it: the mean of \<open>-log(e\<^bsub>i\<^esub> / e\<^bsub>i-1\<^esub>)\<close>
  over all those pairs in which both errors are non-zero.
\<close>

definition spec_rate_terms :: "(xreal \<times> xreal) list \<Rightarrow> real list" where
  "spec_rate_terms pairs = [- ln (c / p). (Finite p, Finite c) \<leftarrow> pairs, p \<noteq> 0 \<and> c \<noteq> 0]"

definition spec_convergenceRate :: "xreal list \<Rightarrow> real" where
  "spec_convergenceRate es =
     sum_list (spec_rate_terms (consecutive_errors es)) /
     real (length (spec_rate_terms (consecutive_errors es)))"

text \<open>
  The same mean taken only over the pairs of positive errors in which the error strictly
  decreased, and 0 when there is no such pair.
\<close>

definition decreasing_rate_terms :: "(xreal \<times> xreal) list \<Rightarrow> real list" where
  "decreasing_rate_terms pairs =
     [- ln (c / p). (Finite p, Finite c) \<leftarrow> pairs, 0 < p \<and> 0 < c \<and> c < p]"

definition decreasing_convergenceRate :: "xreal list \<Rightarrow> real" where
  "decreasing_convergenceRate es =
     (if decreasing_rate_terms (consecutive_errors es) = [] then 0
      else sum_list (decreasing_rate_terms (consecutive_errors es)) /
           real (length (decreasing_rate_terms (consecutive_errors es))))"

text \<open>The body of the loop of \<open>calculateConvergenceRate\<close>, as a function of the pair of
  errors it reads.\<close>

fun rate_step :: "xreal \<times> xreal \<Rightarrow> real \<times> nat \<Rightarrow> real \<times> nat" where
  "rate_step (e_prev, e_curr) (totalRateSum, validRates) =
     (if xpos e_prev \<and> xpos e_curr
      then (case log_ratio e_curr e_prev of
              None \<Rightarrow> (totalRateSum, validRates)
            | Some rate \<Rightarrow>
                if rate < 0 then (totalRateSum + \<bar>rate\<bar>, Suc validRates)
                else (totalRateSum, validRates))
      else (totalRateSum, validRates))"

text \<open>
  A run of four cycles from \<open>[0,0,0,0]\<close> at error rate 1/2 without damping. The draws flip
  codeword indices 0 and 1 in the first and third cycle (the decoder then flips index 2,
  one data bit) and indices 0 and 5 in the second and fourth (the decoder then flips
  index 6, two data bits), so the convergence errors are 1/4, 1/2, 1/4, 1/2.
\<close>

definition oscillating_run :: "(error + report) \<times> solver \<times> real stream" where
  "oscillating_run =
     solveFixedPoint newSolver [0, 0, 0, 0]
       (noParams\<lparr> p_maxIterations := Some 4, p_errorRate := Some (1 / 2),
                  p_enableAdaptiveStep := Some False \<rparr>)
       ([1 / 10, 1 / 10, 9 / 10, 9 / 10, 9 / 10, 9 / 10, 9 / 10,
         1 / 10, 9 / 10, 9 / 10, 9 / 10, 9 / 10, 1 / 10, 9 / 10,
         1 / 10, 1 / 10, 9 / 10, 9 / 10, 9 / 10, 9 / 10, 9 / 10,
         1 / 10, 9 / 10, 9 / 10, 9 / 10, 9 / 10, 1 / 10, 9 / 10] @- sconst (9 / 10))"

section \<open>Evaluation rules\<close>

lemma upt_0_3: "[0..<3] = [0, 1, 2]"
  by (simp add: upt_rec)

lemma upt_0_4: "[0..<4] = [0, 1, 2, 3]"
  by (simp add: upt_rec)

lemma upt_0_7: "[0..<7] = [0, 1, 2, 3, 4, 5, 6]"
  by (simp add: upt_rec)

lemmas hamming_eval =
  encode_def validateDataBits_def generatorMatrix_def decode_def validateCodeword_def
  parityCheckMatrix_def calculateSyndrome_def syndromeToInteger_def
  syndromeToErrorPosition_def flipAt_def flipBitAt_def upt_0_3 upt_0_4 upt_0_7 Let_def

lemmas solver_eval =
  solveFixedPoint_def mergeParams_def defaultParams_def noParams_def
  resetIterationState_def newSolver_def applySingleEvolutionCycle_def
  simulateTemporalTransmission_def calculateConvergenceError_def recordIterationStep_def
  updateStatistics_def createSolutionReport_def calculateConvergenceRate_def
  analyzeErrorCorrection_def estimateMemoryUsage_def getStatus_def

declare solve_loop.simps [simp del]

section \<open>The Hamming(7,4) code\<close>

lemma validateDataBits_cases:
  assumes "validateDataBits d"
  obtains a b c e where "d = [a, b, c, e]"
    "a = 0 \<or> a = 1" "b = 0 \<or> b = 1" "c = 0 \<or> c = 1" "e = 0 \<or> e = 1"
proof -
  from assms have len: "length d = 4" and bits: "list_all (\<lambda>bit. bit = 0 \<or> bit = 1) d"
    by (simp_all add: validateDataBits_def)
  from len obtain a b c e where "d = [a, b, c, e]"
    by (auto simp: length_Suc_conv numeral_eq_Suc)
  with bits that show thesis by simp
qed

lemma encode_decode_clean:
  assumes "validateDataBits d"
  shows "\<exists>c r. encode d = Inr c \<and> decode c = Inr r \<and> dataBits r = d \<and> \<not> errorDetected r
               \<and> validateCodeword c"
  using assms by (elim validateDataBits_cases) (elim disjE; simp add: hamming_eval)

text \<open>
  Claim C3. For each of the 16 four-bit data words \<open>d\<close>, decoding \<open>encode d\<close> returns
  \<open>dataBits\<close> equal to \<open>d\<close> and \<open>errorDetected\<close> false.
\<close>

theorem decode_encode_roundtrip:
  assumes "validateDataBits d"
  shows "\<exists>c r. encode d = Inr c \<and> decode c = Inr r \<and> dataBits r = d \<and> \<not> errorDetected r"
  using encode_decode_clean [OF assms] by blast

theorem decode_encode_roundtrip_witness:
  "validateDataBits [1, 0, 1, 1] \<and>
   (\<exists>c r. encode [1, 0, 1, 1] = Inr c \<and> decode c = Inr r \<and> dataBits r = [1, 0, 1, 1]
          \<and> \<not> errorDetected r)"
proof -
  have v: "validateDataBits [1, 0, 1, 1]"
    by (simp add: validateDataBits_def)
  from v decode_encode_roundtrip [OF v] show ?thesis by blast
qed

text \<open>
  Claim C1. For each of the 16 four-bit data words \<open>d\<close> and each of the 7 bit positions
  \<open>p\<close> (array indices 0..6, as the code and its tests count them), flipping bit \<open>p\<close> of
  \<open>encode d\<close> and decoding returns \<open>dataBits\<close> equal to \<open>d\<close>, \<open>errorDetected\<close> true and
  \<open>errorPosition\<close> equal to \<open>p\<close>.
\<close>

theorem decode_corrects_single_flip:
  assumes "validateDataBits d" and "p < 7"
  shows "\<exists>c r. encode d = Inr c \<and> decode (flipBitAt c p) = Inr r \<and> dataBits r = d
               \<and> errorDetected r \<and> errorPosition r = Some (int p)"
proof -
  from \<open>p < 7\<close> have "p = 0 \<or> p = 1 \<or> p = 2 \<or> p = 3 \<or> p = 4 \<or> p = 5 \<or> p = 6"
    by arith
  with assms(1) show ?thesis
    by (elim validateDataBits_cases) (elim disjE; simp add: hamming_eval)
qed

theorem decode_corrects_single_flip_witness:
  "validateDataBits [1, 0, 1, 1] \<and> (6 :: nat) < 7 \<and>
   (\<exists>c r. encode [1, 0, 1, 1] = Inr c \<and> decode (flipBitAt c 6) = Inr r
          \<and> dataBits r = [1, 0, 1, 1] \<and> errorDetected r \<and> errorPosition r = Some 6)"
proof -
  have v: "validateDataBits [1, 0, 1, 1]"
    by (simp add: validateDataBits_def)
  have p: "(6 :: nat) < 7" by simp
  from v p decode_corrects_single_flip [OF v p] show ?thesis by simp
qed

text \<open>
  Claim C8. The minimum pairwise Hamming distance over the 16 codewords of the codebook
  that \<open>encode\<close> produces is exactly 3.
\<close>

theorem minimum_distance_is_3: "calculateMinimumDistance = Inr 3"
  by code_simp

section \<open>Noise injection\<close>

lemma unit_draws_stl: "unit_draws g \<Longrightarrow> unit_draws (stl g)"
  by (auto simp: unit_draws_def dest: stl_sset)

lemma unit_draws_shd: "unit_draws g \<Longrightarrow> 0 \<le> shd g \<and> shd g < 1"
  using shd_sset [of g] by (auto simp: unit_draws_def)

lemma injectErrors_rate_0:
  "unit_draws g \<Longrightarrow> fst (injectErrors c 0 g) = c"
proof (induction c arbitrary: g)
  case Nil
  show ?case by simp
next
  case (Cons b bs)
  from Cons.prems have "\<not> shd g < 0" using unit_draws_shd by fastforce
  moreover from Cons.prems have "fst (injectErrors bs 0 (stl g)) = bs"
    by (intro Cons.IH unit_draws_stl)
  ultimately show ?case by (simp add: split_beta)
qed

lemma injectErrors_rate_1:
  "unit_draws g \<Longrightarrow> list_all (\<lambda>bit. bit = 0 \<or> bit = 1) c \<Longrightarrow>
   fst (injectErrors c 1 g) = map (\<lambda>bit. 1 - bit) c"
proof (induction c arbitrary: g)
  case Nil
  show ?case by simp
next
  case (Cons b bs)
  from Cons.prems have draw: "shd g < 1" using unit_draws_shd by fastforce
  from Cons.prems have "fst (injectErrors bs 1 (stl g)) = map (\<lambda>bit. 1 - bit) bs"
    by (intro Cons.IH unit_draws_stl) simp_all
  moreover from Cons.prems have "b XOR 1 = 1 - b" by auto
  ultimately show ?case using draw by (simp add: split_beta)
qed

text \<open>
  Claim C5. For every 7-bit codeword \<open>c\<close> and every sequence of draws of the random source
  (each in \<open>[0, 1)\<close>, as \<open>Math.random()\<close> gives them), \<open>injectErrors c 0.0\<close> returns \<open>c\<close>
  and \<open>injectErrors c 1.0\<close> returns the bitwise complement of \<open>c\<close>.
\<close>

theorem injectErrors_rate_0_and_1:
  assumes "validateCodeword c" and "unit_draws g"
  shows "fst (injectErrors c 0 g) = c \<and> fst (injectErrors c 1 g) = map (\<lambda>bit. 1 - bit) c"
  using assms by (simp add: injectErrors_rate_0 injectErrors_rate_1 validateCodeword_def)

theorem injectErrors_rate_0_and_1_witness:
  "validateCodeword [1, 1, 1, 0, 0, 0, 0] \<and> unit_draws (sconst (1 / 2)) \<and>
   fst (injectErrors [1, 1, 1, 0, 0, 0, 0] 0 (sconst (1 / 2))) = [1, 1, 1, 0, 0, 0, 0] \<and>
   fst (injectErrors [1, 1, 1, 0, 0, 0, 0] 1 (sconst (1 / 2))) = [0, 0, 0, 1, 1, 1, 1]"
proof -
  have v: "validateCodeword [1, 1, 1, 0, 0, 0, 0]"
    by (simp add: validateCodeword_def)
  have u: "unit_draws (sconst (1 / 2))"
    by (simp add: unit_draws_def)
  from v u injectErrors_rate_0_and_1 [OF v u] show ?thesis by simp
qed

section \<open>A run that exhausts its iterations\<close>

text \<open>
  One cycle from \<open>[0,0,0,0]\<close> in which the draws flip the bits at indices 2 and 4 of the
  transmitted codeword: the decoder flips index 5, the decoded word \<open>[1,1,1,0]\<close> differs
  from the input in three bits, and the single allowed iteration is used up.
\<close>

lemma example_run:
  "solveFixedPoint newSolver [0, 0, 0, 0]
     (noParams\<lparr> p_maxIterations := Some 1, p_errorRate := Some (1 / 2),
                p_enableAdaptiveStep := Some False \<rparr>)
     ([9 / 10, 9 / 10, 1 / 10, 9 / 10, 1 / 10, 9 / 10, 9 / 10] @- sconst (9 / 10)) =
   (Inr \<lparr> finalState = [1, 1, 1, 0], converged = False, iterations = 2,
          finalError = Finite (3 / 4),
          parameters = \<lparr> maxIterations = 1, convergenceTolerance = 1 / 1000000,
                         errorRate = 1 / 2, dampingFactor = 1 / 2,
                         enableAdaptiveStep = False \<rparr>,
          r_convergenceHistory =
            [\<lparr> h_iteration = 0, h_state = [1, 1, 1, 0], h_convergenceError = Finite (3 / 4),
               h_errorsCorrected = True, h_errorPosition = Some 5,
               h_encodedState = [0, 0, 0, 0, 0, 0, 0],
               h_transmittedState = [0, 0, 1, 0, 1, 0, 0] \<rparr>],
          convergenceRate = 0,
          errorCorrectionStats = \<lparr> totalErrorsDetected = 1, errorsCorrected = 1,
                                   correctionEfficiency = 1,
                                   averageErrorsPerIteration = Some 1 \<rparr>,
          memoryUsage = 100 \<rparr>,
    \<lparr> convergenceHistory =
        [\<lparr> h_iteration = 0, h_state = [1, 1, 1, 0], h_convergenceError = Finite (3 / 4),
           h_errorsCorrected = True, h_errorPosition = Some 5,
           h_encodedState = [0, 0, 0, 0, 0, 0, 0],
           h_transmittedState = [0, 0, 1, 0, 1, 0, 0] \<rparr>],
      currentIteration = 1, isConverged = False, convergenceError = Finite (3 / 4),
      statistics = \<lparr> totalRuns = 1, successfulConvergences = 0, averageIterations = 1 / 5,
                     convergenceRates = [], errorCorrectionEffectiveness = [] \<rparr> \<rparr>,
    sconst (9 / 10))"
  by (simp add: solver_eval solve_loop.simps hamming_eval)

section \<open>Error-correction statistics\<close>

lemma analyze_fold:
  "fold (\<lambda>step (totalErrors, correctedErrors).
           if h_errorsCorrected step then (Suc totalErrors, Suc correctedErrors)
           else (totalErrors, correctedErrors)) h (n, n) =
   (n + length (filter h_errorsCorrected h), n + length (filter h_errorsCorrected h))"
  by (induction h arbitrary: n) simp_all

lemma analyzeErrorCorrection_efficiency:
  "correctionEfficiency (analyzeErrorCorrection this) = 1"
  by (simp add: analyzeErrorCorrection_def analyze_fold)

text \<open>
  Claim C10. For every solve invocation that returns a report, whatever the error rate,
  the outcome and the random draws, \<open>errorCorrectionStats.correctionEfficiency\<close> is
  exactly 1: each step counted as a detected error is also counted as corrected.
\<close>

theorem correction_efficiency_is_1:
  assumes "solveFixedPoint this d ps g = (Inr rep, this', g')"
  shows "correctionEfficiency (errorCorrectionStats rep) = 1"
proof -
  from assms obtain this2 cd where "rep = createSolutionReport this2 cd (mergeParams defaultParams ps)"
    by (auto simp: solveFixedPoint_def Let_def split: prod.splits sum.splits)
  then show ?thesis
    by (simp add: createSolutionReport_def analyzeErrorCorrection_efficiency)
qed

theorem correction_efficiency_is_1_witness:
  "\<exists>rep this' g'.
     solveFixedPoint newSolver [0, 0, 0, 0]
       (noParams\<lparr> p_maxIterations := Some 1, p_errorRate := Some (1 / 2),
                  p_enableAdaptiveStep := Some False \<rparr>)
       ([9 / 10, 9 / 10, 1 / 10, 9 / 10, 1 / 10, 9 / 10, 9 / 10] @- sconst (9 / 10)) =
     (Inr rep, this', g') \<and>
     totalErrorsDetected (errorCorrectionStats rep) = 1 \<and>
     correctionEfficiency (errorCorrectionStats rep) = 1"
  using example_run correction_efficiency_is_1 [OF example_run] by simp

section \<open>Configuration values outside their ranges\<close>

text \<open>
  Claim C2. The claim is that an invalid configuration (negative \<open>maxIterations\<close>,
  tolerance outside (0,1), error rate outside [0,1]) makes \<open>solveFixedPoint\<close> fail with
  an invalid-parameter error before any iteration runs, leaving history and statistics
  untouched. The code never inspects the configuration: with \<open>maxIterations = -1\<close> the
  loop body is skipped, a report with \<open>converged = false\<close> and \<open>iterations = 1\<close> is
  returned, and \<open>statistics.totalRuns\<close> and \<open>averageIterations\<close> are updated.
\<close>

theorem negative_maxIterations_returns_report:
  "solveFixedPoint newSolver [1, 0, 1, 0] (noParams\<lparr> p_maxIterations := Some (- 1) \<rparr>) g =
   (Inr \<lparr> finalState = [1, 0, 1, 0], converged = False, iterations = 1,
          finalError = Infinity,
          parameters = \<lparr> maxIterations = - 1, convergenceTolerance = 1 / 1000000,
                         errorRate = 5 / 100, dampingFactor = 1 / 2,
                         enableAdaptiveStep = True \<rparr>,
          r_convergenceHistory = [], convergenceRate = 0,
          errorCorrectionStats = \<lparr> totalErrorsDetected = 0, errorsCorrected = 0,
                                   correctionEfficiency = 1,
                                   averageErrorsPerIteration = None \<rparr>,
          memoryUsage = 0 \<rparr>,
    \<lparr> convergenceHistory = [], currentIteration = 0, isConverged = False,
      convergenceError = Infinity,
      statistics = \<lparr> totalRuns = 1, successfulConvergences = 0, averageIterations = 1 / 10,
                     convergenceRates = [], errorCorrectionEffectiveness = [] \<rparr> \<rparr>,
    g)"
  by (simp add: solver_eval solve_loop.simps)

section \<open>Convergence without noise\<close>

lemma differences_same: "differences d d = 0"
  by (induction d) simp_all

lemma injectErrors_rate_0_pair:
  "unit_draws g \<Longrightarrow> injectErrors c 0 g = (c, snd (injectErrors c 0 g))"
  using injectErrors_rate_0 [of g c] by (simp add: prod_eq_iff)

text \<open>
  Claim C4. For every four-bit data word \<open>d\<close> and every valid configuration with error
  rate 0 (any damping factor and adaptive-step setting, \<open>maxIterations > 0\<close>, tolerance in
  (0,1)), \<open>solveFixedPoint\<close> returns \<open>converged = true\<close> with \<open>finalState = d\<close> after at
  most 3 iterations, for every sequence of draws of the random source.
\<close>

theorem zero_error_rate_converges:
  assumes d: "validateDataBits d" and g: "unit_draws g"
    and rate: "errorRate (mergeParams defaultParams ps) = 0"
    and iters: "0 < maxIterations (mergeParams defaultParams ps)"
    and tol: "0 < convergenceTolerance (mergeParams defaultParams ps)"
             "convergenceTolerance (mergeParams defaultParams ps) < 1"
  shows "\<exists>rep this' g'. solveFixedPoint this d ps g = (Inr rep, this', g') \<and>
           converged rep \<and> finalState rep = d \<and> iterations rep \<le> 3"
proof -
  define cfg where "cfg = mergeParams defaultParams ps"
  from encode_decode_clean [OF d] obtain c r where
    enc: "encode d = Inr c" and dec: "decode c = Inr r" and bits: "dataBits r = d"
    by blast
  define g1 where "g1 = snd (injectErrors c 0 g)"
  have inj: "injectErrors c 0 g = (c, g1)"
    unfolding g1_def using g by (rule injectErrors_rate_0_pair)
  have cycle: "\<exists>ev. applySingleEvolutionCycle d cfg g = (Inr ev, g1) \<and> ev_finalData ev = d"
    using enc dec bits inj rate
    by (simp add: applySingleEvolutionCycle_def simulateTemporalTransmission_def cfg_def)
  then obtain ev where ev: "applySingleEvolutionCycle d cfg g = (Inr ev, g1)" "ev_finalData ev = d"
    by blast
  have err: "calculateConvergenceError d (Some d) = Finite 0"
    by (simp add: calculateConvergenceError_def differences_same)
  have loop: "\<exists>this1. solve_loop cfg (resetIterationState this) d g = (Inr d, this1, g1) \<and>
     isConverged this1 \<and> currentIteration this1 = 0"
    using ev err iters tol(1)
    by (subst solve_loop.simps)
       (simp add: resetIterationState_def recordIterationStep_def cfg_def Let_def)
  then obtain this1 where this1: "solve_loop cfg (resetIterationState this) d g = (Inr d, this1, g1)"
     "isConverged this1" "currentIteration this1 = 0" by blast
  then show ?thesis
    by (simp add: solveFixedPoint_def cfg_def [symmetric] createSolutionReport_def updateStatistics_def Let_def)
qed


theorem zero_error_rate_converges_witness:
  "validateDataBits [0, 1, 1, 0] \<and> unit_draws (sconst (1 / 2)) \<and>
   errorRate (mergeParams defaultParams (noParams\<lparr> p_errorRate := Some 0 \<rparr>)) = 0 \<and>
   0 < maxIterations (mergeParams defaultParams (noParams\<lparr> p_errorRate := Some 0 \<rparr>)) \<and>
   0 < convergenceTolerance (mergeParams defaultParams (noParams\<lparr> p_errorRate := Some 0 \<rparr>)) \<and>
   convergenceTolerance (mergeParams defaultParams (noParams\<lparr> p_errorRate := Some 0 \<rparr>)) < 1 \<and>
   (\<exists>rep this' g'.
      solveFixedPoint newSolver [0, 1, 1, 0] (noParams\<lparr> p_errorRate := Some 0 \<rparr>)
        (sconst (1 / 2)) = (Inr rep, this', g') \<and>
      converged rep \<and> finalState rep = [0, 1, 1, 0] \<and> iterations rep \<le> 3)"
proof -
  let ?ps = "noParams\<lparr> p_errorRate := Some 0 \<rparr>"
  have d: "validateDataBits [0, 1, 1, 0]"
    by (simp add: validateDataBits_def)
  have g: "unit_draws (sconst (1 / 2))"
    by (simp add: unit_draws_def)
  have rate: "errorRate (mergeParams defaultParams ?ps) = 0"
    by (simp add: mergeParams_def noParams_def)
  have iters: "0 < maxIterations (mergeParams defaultParams ?ps)"
    by (simp add: mergeParams_def noParams_def defaultParams_def)
  have tol: "0 < convergenceTolerance (mergeParams defaultParams ?ps)"
    "convergenceTolerance (mergeParams defaultParams ?ps) < 1"
    by (simp_all add: mergeParams_def noParams_def defaultParams_def)
  from d g rate iters tol zero_error_rate_converges [OF d g rate iters tol, of newSolver]
  show ?thesis by blast
qed

section \<open>Runs that use up their iterations\<close>

lemma solve_loop_exhausted:
  "solve_loop cfg this d g = (Inr d', this', g') \<Longrightarrow> \<not> isConverged this' \<Longrightarrow>
   int (currentIteration this) \<le> maxIterations cfg \<Longrightarrow>
   int (currentIteration this') = maxIterations cfg \<and>
   length (convergenceHistory this') + currentIteration this =
     length (convergenceHistory this) + currentIteration this'"
proof (induction cfg this d g rule: solve_loop.induct)
  case (1 cfg this currentData g)
  show ?case
  proof (cases "int (currentIteration this) < maxIterations cfg")
    case False
    with "1.prems" show ?thesis
      by (simp add: solve_loop.simps [of cfg this])
  next
    case True
    with "1.prems" "1.IH" show ?thesis
      apply (subst (asm) solve_loop.simps)
      apply (auto simp: Let_def recordIterationStep_def split: prod.splits sum.splits if_splits)
      done
  qed
qed

lemma solve_loop_converged_met_tolerance:
  "solve_loop cfg this d g = (Inr d', this', g') \<Longrightarrow> \<not> isConverged this \<Longrightarrow>
   isConverged this' \<Longrightarrow>
   \<exists>step \<in> set (convergenceHistory this').
      xle (h_convergenceError step) (convergenceTolerance cfg)"
proof (induction cfg this d g rule: solve_loop.induct)
  case (1 cfg this currentData g)
  show ?case
  proof (cases "int (currentIteration this) < maxIterations cfg")
    case False
    with "1.prems" show ?thesis
      by (simp add: solve_loop.simps [of cfg this])
  next
    case True
    with "1.prems" "1.IH" show ?thesis
      apply (subst (asm) solve_loop.simps)
      apply (auto simp: Let_def recordIterationStep_def split: prod.splits sum.splits if_splits)
      done
  qed
qed

text \<open>
  Claim C9. For every solve invocation that returns without any of its cycles having met
  the tolerance (with \<open>maxIterations\<close> not negative), the report has \<open>converged = false\<close>,
  its history has exactly \<open>maxIterations\<close> records, one per evolution cycle, and its
  \<open>iterations\<close> field is \<open>maxIterations + 1\<close>.
\<close>

theorem exhausted_run_iteration_count:
  assumes run: "solveFixedPoint this d ps g = (Inr rep, this', g')"
    and exhausted: "\<forall>step \<in> set (r_convergenceHistory rep).
                      \<not> xle (h_convergenceError step)
                             (convergenceTolerance (mergeParams defaultParams ps))"
    and iters: "0 \<le> maxIterations (mergeParams defaultParams ps)"
  shows "\<not> converged rep \<and>
         int (length (r_convergenceHistory rep)) = maxIterations (mergeParams defaultParams ps) \<and>
         int (iterations rep) = maxIterations (mergeParams defaultParams ps) + 1"
proof -
  define cfg where "cfg = mergeParams defaultParams ps"
  from run obtain cd this1 where
    loop: "solve_loop cfg (resetIterationState this) d g = (Inr cd, this1, g')" and
    rep: "rep = createSolutionReport (updateStatistics this1) cd cfg"
    by (auto simp: solveFixedPoint_def Let_def cfg_def split: prod.splits sum.splits)
  have fields: "converged rep = isConverged this1"
    "r_convergenceHistory rep = convergenceHistory this1"
    "iterations rep = currentIteration this1 + 1"
    by (simp_all add: rep createSolutionReport_def updateStatistics_def Let_def)
  have fresh: "\<not> isConverged (resetIterationState this)"
    by (simp add: resetIterationState_def)
  have nc: "\<not> isConverged this1"
  proof
    assume "isConverged this1"
    from solve_loop_converged_met_tolerance [OF loop fresh this] exhausted
    show False by (auto simp: fields cfg_def)
  qed
  from iters have start: "int (currentIteration (resetIterationState this)) \<le> maxIterations cfg"
    by (simp add: resetIterationState_def cfg_def)
  from solve_loop_exhausted [OF loop nc start]
  have "int (currentIteration this1) = maxIterations cfg"
    and "length (convergenceHistory this1) = currentIteration this1"
    by (simp_all add: resetIterationState_def)
  with nc show ?thesis
    by (simp add: fields cfg_def)
qed

theorem exhausted_run_iteration_count_witness:
  "\<exists>rep this' g'.
     solveFixedPoint newSolver [0, 0, 0, 0]
       (noParams\<lparr> p_maxIterations := Some 1, p_errorRate := Some (1 / 2),
                  p_enableAdaptiveStep := Some False \<rparr>)
       ([9 / 10, 9 / 10, 1 / 10, 9 / 10, 1 / 10, 9 / 10, 9 / 10] @- sconst (9 / 10)) =
     (Inr rep, this', g') \<and>
     map h_convergenceError (r_convergenceHistory rep) = [Finite (3 / 4)] \<and>
     convergenceTolerance (mergeParams defaultParams
            (noParams\<lparr> p_maxIterations := Some 1, p_errorRate := Some (1 / 2),
                       p_enableAdaptiveStep := Some False \<rparr>)) = 1 / 1000000 \<and>
     maxIterations (mergeParams defaultParams
            (noParams\<lparr> p_maxIterations := Some 1, p_errorRate := Some (1 / 2),
                       p_enableAdaptiveStep := Some False \<rparr>)) = 1 \<and>
     \<not> converged rep \<and> length (r_convergenceHistory rep) = 1 \<and> iterations rep = 2"
proof -
  let ?ps = "noParams\<lparr> p_maxIterations := Some 1, p_errorRate := Some (1 / 2),
                        p_enableAdaptiveStep := Some False \<rparr>"
  have m: "maxIterations (mergeParams defaultParams ?ps) = 1"
    by (simp add: mergeParams_def noParams_def)
  have t: "convergenceTolerance (mergeParams defaultParams ?ps) = 1 / 1000000"
    by (simp add: mergeParams_def noParams_def defaultParams_def)
  have iters: "0 \<le> maxIterations (mergeParams defaultParams ?ps)"
    by (simp add: m)
  obtain rep this' g' where
    run: "solveFixedPoint newSolver [0, 0, 0, 0] ?ps
            ([9 / 10, 9 / 10, 1 / 10, 9 / 10, 1 / 10, 9 / 10, 9 / 10] @- sconst (9 / 10)) =
          (Inr rep, this', g')"
    and es: "map h_convergenceError (r_convergenceHistory rep) = [Finite (3 / 4)]"
    by (rule that [OF example_run]) simp
  from es have exhausted: "\<forall>step \<in> set (r_convergenceHistory rep).
      \<not> xle (h_convergenceError step) (convergenceTolerance (mergeParams defaultParams ?ps))"
    by (auto simp: t)
  from exhausted_run_iteration_count [OF run exhausted iters] m
  have concl: "\<not> converged rep" "length (r_convergenceHistory rep) = 1" "iterations rep = 2"
    by linarith+
  show ?thesis
    by (intro exI conjI) (fact run es t m concl)+
qed

section \<open>State that outlives an invocation\<close>

lemma statistics_last:
  "(this\<lparr> statistics := st \<rparr>)\<lparr> convergenceError := e \<rparr> =
     (this\<lparr> convergenceError := e \<rparr>)\<lparr> statistics := st \<rparr>"
  "(this\<lparr> statistics := st \<rparr>)\<lparr> convergenceHistory := h \<rparr> =
     (this\<lparr> convergenceHistory := h \<rparr>)\<lparr> statistics := st \<rparr>"
  "(this\<lparr> statistics := st \<rparr>)\<lparr> currentIteration := n \<rparr> =
     (this\<lparr> currentIteration := n \<rparr>)\<lparr> statistics := st \<rparr>"
  "(this\<lparr> statistics := st \<rparr>)\<lparr> isConverged := b \<rparr> =
     (this\<lparr> isConverged := b \<rparr>)\<lparr> statistics := st \<rparr>"
  by simp_all

lemma solve_loop_statistics_frame:
  "solve_loop cfg (this\<lparr> statistics := st \<rparr>) d g =
   (case solve_loop cfg this d g of (r, this', g') \<Rightarrow> (r, this'\<lparr> statistics := st \<rparr>, g'))"
proof (induction cfg this d g rule: solve_loop.induct)
  case (1 cfg this currentData g)
  show ?case
  proof (cases "int (currentIteration this) < maxIterations cfg")
    case False
    then show ?thesis
      by (simp add: solve_loop.simps [of cfg this] solve_loop.simps [of cfg "this\<lparr> statistics := st \<rparr>"])
  next
    case True
    with "1.IH" show ?thesis
      apply (subst solve_loop.simps [of cfg this])
      apply (subst solve_loop.simps [of cfg "this\<lparr> statistics := st \<rparr>"])
      apply (auto simp: Let_def recordIterationStep_def statistics_last split: prod.splits sum.splits if_splits)
      done
  qed
qed

lemma reset_statistics_frame:
  "resetIterationState s1 = (resetIterationState s2)\<lparr> statistics := statistics s1 \<rparr>"
  by (simp add: resetIterationState_def)

lemma updateStatistics_fields:
  "convergenceHistory (updateStatistics this) = convergenceHistory this"
  "currentIteration (updateStatistics this) = currentIteration this"
  "isConverged (updateStatistics this) = isConverged this"
  "convergenceError (updateStatistics this) = convergenceError this"
  by (simp_all add: updateStatistics_def Let_def)

lemma history_determines_metrics:
  assumes "convergenceHistory a = convergenceHistory b"
  shows "calculateConvergenceRate a = calculateConvergenceRate b"
    and "analyzeErrorCorrection a = analyzeErrorCorrection b"
    and "estimateMemoryUsage a = estimateMemoryUsage b"
  unfolding calculateConvergenceRate_def analyzeErrorCorrection_def
    estimateMemoryUsage_def assms by (rule refl)+

lemma report_ignores_statistics:
  "createSolutionReport (updateStatistics (this\<lparr> statistics := st \<rparr>)) cd cfg =
   createSolutionReport (updateStatistics this) cd cfg"
proof -
  have "convergenceHistory (updateStatistics (this\<lparr> statistics := st \<rparr>)) =
        convergenceHistory (updateStatistics this)"
    by (simp add: updateStatistics_fields)
  from history_determines_metrics [OF this] show ?thesis
    by (simp add: createSolutionReport_def updateStatistics_fields)
qed

lemma updateStatistics_frame:
  "(updateStatistics this)\<lparr> statistics := st \<rparr> = this\<lparr> statistics := st \<rparr>"
  by (simp add: updateStatistics_def Let_def)

lemma updateStatistics_totalRuns:
  "totalRuns (statistics (updateStatistics this)) = totalRuns (statistics this) + 1"
  by (simp add: updateStatistics_def Let_def)

text \<open>
  Claim C7, as the code has it. The report of an invocation, the rest of the random
  source and every field of the solver object except \<open>statistics\<close> are the same whatever
  state earlier invocations left in the solver; the statistics do survive: an invocation
  that returns a report adds 1 to \<open>totalRuns\<close> of the solver it was given.
\<close>

theorem report_independent_of_prior_state:
  "fst (solveFixedPoint s1 d ps g) = fst (solveFixedPoint s2 d ps g) \<and>
   snd (snd (solveFixedPoint s1 d ps g)) = snd (snd (solveFixedPoint s2 d ps g)) \<and>
   (solver_after s1 d ps g)\<lparr> statistics := st \<rparr> = (solver_after s2 d ps g)\<lparr> statistics := st \<rparr> \<and>
   totalRuns (statistics (solver_after s1 d ps g)) =
     (if isl (fst (solveFixedPoint s1 d ps g)) then totalRuns (statistics s1)
      else totalRuns (statistics s1) + 1)"
proof -
  define cfg where "cfg = mergeParams defaultParams ps"
  obtain r this2 g2 where l2: "solve_loop cfg (resetIterationState s2) d g = (r, this2, g2)"
    by (cases "solve_loop cfg (resetIterationState s2) d g") auto
  have l1: "solve_loop cfg (resetIterationState s1) d g = (r, this2\<lparr> statistics := statistics s1 \<rparr>, g2)"
    by (subst reset_statistics_frame [of s1 s2]) (simp add: solve_loop_statistics_frame l2)
  show ?thesis
  proof (cases r)
    case (Inl e)
    with l1 l2 show ?thesis
      by (simp add: solveFixedPoint_def solver_after_def cfg_def [symmetric])
  next
    case (Inr cd)
    with l1 l2 show ?thesis
      by (simp add: solveFixedPoint_def solver_after_def cfg_def [symmetric] Let_def
          report_ignores_statistics updateStatistics_frame updateStatistics_totalRuns)
  qed
qed

text \<open>
  Claim C7 as stated (no state written by one invocation is observable after the next)
  fails: \<open>getStatus\<close> after two invocations differs from \<open>getStatus\<close> after the second
  alone, since \<open>totalRuns\<close> counts both.
\<close>

theorem statistics_survive_invocations:
  "getStatus (solver_after (solver_after newSolver [0, 0, 0, 0] (noParams\<lparr> p_errorRate := Some 0 \<rparr>) (sconst (1 / 2)))
                 [0, 0, 0, 0] (noParams\<lparr> p_errorRate := Some 0 \<rparr>) (sconst (1 / 2))) \<noteq>
   getStatus (solver_after newSolver [0, 0, 0, 0] (noParams\<lparr> p_errorRate := Some 0 \<rparr>) (sconst (1 / 2)))"
  by (simp add: solver_after_def solver_eval solve_loop.simps hamming_eval)

section \<open>The convergence-rate metric\<close>

lemma consecutive_errors_index:
  "consecutive_errors es = map (\<lambda>i. (es ! (i - 1), es ! i)) [2..<length es]"
  unfolding consecutive_errors_def
  by (rule nth_equalityI) (auto simp: nth_append)

lemma decreasing_rate_terms_Cons:
  "decreasing_rate_terms ((a, b) # ps) =
     (case (a, b) of
        (Finite p, Finite c) \<Rightarrow> if 0 < p \<and> 0 < c \<and> c < p then [- ln (c / p)] else []
      | _ \<Rightarrow> []) @ decreasing_rate_terms ps"
  by (simp add: decreasing_rate_terms_def split: xreal.splits)

lemma ln_ratio_negative:
  assumes "0 < (p :: real)" and "0 < (c :: real)"
  shows "ln (c / p) < 0 \<longleftrightarrow> c < p"
proof -
  from assms have "0 < c / p" by simp
  then have "ln (c / p) < 0 \<longleftrightarrow> c / p < 1" by (rule ln_less_zero_iff)
  also from assms have "\<dots> \<longleftrightarrow> c < p" by simp
  finally show ?thesis .
qed

lemma fold_rate_step:
  "fold rate_step ps (s, n) =
     (s + sum_list (decreasing_rate_terms ps), n + length (decreasing_rate_terms ps))"
proof (induction ps arbitrary: s n)
  case Nil
  show ?case by (simp add: decreasing_rate_terms_def)
next
  case (Cons x ps)
  obtain a b where x: "x = (a, b)" by (cases x)
  show ?case
  proof (cases a)
    case Infinity
    then show ?thesis
      by (cases b) (simp_all add: x Cons.IH decreasing_rate_terms_Cons)
  next
    case (Finite p)
    note a = this
    show ?thesis
    proof (cases b)
      case Infinity
      with a show ?thesis by (simp add: x Cons.IH decreasing_rate_terms_Cons)
    next
      case (Finite c)
      with a show ?thesis
        by (auto simp: x Cons.IH decreasing_rate_terms_Cons ln_ratio_negative)
    qed
  qed
qed

lemma calculateConvergenceRate_fold:
  "fold (\<lambda>i (totalRateSum, validRates).
           if xpos (h_convergenceError (h ! (i - 1))) \<and> xpos (h_convergenceError (h ! i))
           then (case log_ratio (h_convergenceError (h ! i)) (h_convergenceError (h ! (i - 1))) of
                   None \<Rightarrow> (totalRateSum, validRates)
                 | Some rate \<Rightarrow>
                     if rate < 0
                     then (totalRateSum + \<bar>rate\<bar>, Suc validRates)
                     else (totalRateSum, validRates))
           else (totalRateSum, validRates))
        [2..<length h] acc =
   fold rate_step (consecutive_errors (map h_convergenceError h)) acc"
proof -
  have "fold rate_step (consecutive_errors (map h_convergenceError h)) acc =
        fold (rate_step \<circ> (\<lambda>i. (map h_convergenceError h ! (i - 1), map h_convergenceError h ! i)))
          [2..<length h] acc"
    by (simp add: consecutive_errors_index fold_map)
  also have "\<dots> = fold (\<lambda>i. rate_step (h_convergenceError (h ! (i - 1)), h_convergenceError (h ! i)))
          [2..<length h] acc"
    by (rule fold_cong) auto
  also have "\<dots> =
     fold (\<lambda>i (totalRateSum, validRates).
           if xpos (h_convergenceError (h ! (i - 1))) \<and> xpos (h_convergenceError (h ! i))
           then (case log_ratio (h_convergenceError (h ! i)) (h_convergenceError (h ! (i - 1))) of
                   None \<Rightarrow> (totalRateSum, validRates)
                 | Some rate \<Rightarrow>
                     if rate < 0
                     then (totalRateSum + \<bar>rate\<bar>, Suc validRates)
                     else (totalRateSum, validRates))
           else (totalRateSum, validRates))
        [2..<length h] acc"
    by (rule fold_cong) (auto simp: fun_eq_iff)
  finally show ?thesis by simp
qed

lemma calculateConvergenceRate_decreasing:
  "calculateConvergenceRate this =
   decreasing_convergenceRate (map h_convergenceError (convergenceHistory this))"
proof -
  let ?es = "map h_convergenceError (convergenceHistory this)"
  show ?thesis
  proof (cases "length (convergenceHistory this) < 3")
    case True
    then have "consecutive_errors ?es = []"
      by (simp add: consecutive_errors_def)
    with True show ?thesis
      by (simp add: calculateConvergenceRate_def decreasing_convergenceRate_def decreasing_rate_terms_def)
  next
    case False
    have "calculateConvergenceRate this =
          (if length (convergenceHistory this) < 3 then 0
           else case (0 + sum_list (decreasing_rate_terms (consecutive_errors ?es)),
                      0 + length (decreasing_rate_terms (consecutive_errors ?es))) of
                  (totalRateSum, validRates) \<Rightarrow>
                    if validRates > 0 then totalRateSum / real validRates else 0)"
      unfolding calculateConvergenceRate_def Let_def calculateConvergenceRate_fold fold_rate_step
      by (rule refl)
    with False show ?thesis
      by (simp add: decreasing_convergenceRate_def)
  qed
qed

lemma report_convergenceRate:
  assumes "solveFixedPoint this d ps g = (Inr rep, this', g')"
  shows "convergenceRate rep =
         decreasing_convergenceRate (map h_convergenceError (r_convergenceHistory rep))"
proof -
  from assms obtain this2 cd where "rep = createSolutionReport this2 cd (mergeParams defaultParams ps)"
    by (auto simp: solveFixedPoint_def Let_def split: prod.splits sum.splits)
  then show ?thesis
    by (simp add: createSolutionReport_def calculateConvergenceRate_decreasing)
qed

lemma oscillating_run_returns:
  "\<exists>rep this' g'. oscillating_run = (Inr rep, this', g') \<and>
     map h_convergenceError (r_convergenceHistory rep) =
       [Finite (1 / 4), Finite (1 / 2), Finite (1 / 4), Finite (1 / 2)]"
  by (simp add: oscillating_run_def solver_eval solve_loop.simps hamming_eval)

lemma ln_half: "ln (1 / 2 :: real) = - ln 2"
  by (simp add: ln_div)

lemma oscillating_spec_rate:
  "spec_convergenceRate [Finite (1 / 4), Finite (1 / 2), Finite (1 / 4), Finite (1 / 2)] = 0"
  by (simp add: spec_convergenceRate_def spec_rate_terms_def consecutive_errors_def ln_half)

lemma oscillating_code_rate:
  "decreasing_convergenceRate [Finite (1 / 4), Finite (1 / 2), Finite (1 / 4), Finite (1 / 2)] = ln 2"
  by (simp add: decreasing_convergenceRate_def decreasing_rate_terms_def consecutive_errors_def ln_half)

text \<open>
  Claim C6, as the code has it. For every solve invocation that returns a report, the
  convergence rate is the mean of \<open>-log(e\<^bsub>i\<^esub> / e\<^bsub>i-1\<^esub>)\<close> over the consecutive pairs
  of positive convergence errors, from the third iteration on, in which the error strictly
  decreased, and 0 when there is no such pair (in particular with fewer than 3 records).
\<close>

theorem convergenceRate_mean_of_decreasing_pairs:
  assumes "solveFixedPoint this d ps g = (Inr rep, this', g')"
  shows "convergenceRate rep =
         decreasing_convergenceRate (map h_convergenceError (r_convergenceHistory rep))"
  using assms by (rule report_convergenceRate)

theorem convergenceRate_mean_of_decreasing_pairs_witness:
  "\<exists>rep this' g'.
     solveFixedPoint newSolver [0, 0, 0, 0]
       (noParams\<lparr> p_maxIterations := Some 4, p_errorRate := Some (1 / 2),
                  p_enableAdaptiveStep := Some False \<rparr>)
       ([1 / 10, 1 / 10, 9 / 10, 9 / 10, 9 / 10, 9 / 10, 9 / 10,
         1 / 10, 9 / 10, 9 / 10, 9 / 10, 9 / 10, 1 / 10, 9 / 10,
         1 / 10, 1 / 10, 9 / 10, 9 / 10, 9 / 10, 9 / 10, 9 / 10,
         1 / 10, 9 / 10, 9 / 10, 9 / 10, 9 / 10, 1 / 10, 9 / 10] @- sconst (9 / 10)) =
     (Inr rep, this', g') \<and>
     convergenceRate rep =
       decreasing_convergenceRate (map h_convergenceError (r_convergenceHistory rep)) \<and>
     convergenceRate rep = ln 2"
proof -
  from oscillating_run_returns obtain rep this' g' where
    run: "oscillating_run = (Inr rep, this', g')" and
    es: "map h_convergenceError (r_convergenceHistory rep) =
         [Finite (1 / 4), Finite (1 / 2), Finite (1 / 4), Finite (1 / 2)]"
    by auto
  note run' = run [unfolded oscillating_run_def]
  note rate = convergenceRate_mean_of_decreasing_pairs [OF run']
  from rate es have "convergenceRate rep = ln 2"
    by (simp add: oscillating_code_rate)
  with run' rate show ?thesis
    by blast
qed

text \<open>
  Claim C6 as stated (the mean over all consecutive pairs of non-zero errors) fails on the
  oscillating run: its history has four records, the code's rate is \<open>ln 2\<close>, from the one
  decreasing pair, and the mean over both pairs is 0.
\<close>

theorem convergenceRate_not_mean_of_all_pairs:
  "3 \<le> length (r_convergenceHistory (projr (fst oscillating_run))) \<and>
   convergenceRate (projr (fst oscillating_run)) \<noteq>
   spec_convergenceRate (map h_convergenceError (r_convergenceHistory (projr (fst oscillating_run))))"
proof -
  from oscillating_run_returns obtain rep this' g' where
    run: "oscillating_run = (Inr rep, this', g')" and
    es: "map h_convergenceError (r_convergenceHistory rep) =
         [Finite (1 / 4), Finite (1 / 2), Finite (1 / 4), Finite (1 / 2)]"
    by auto
  from run have "convergenceRate rep =
      decreasing_convergenceRate (map h_convergenceError (r_convergenceHistory rep))"
    unfolding oscillating_run_def by (rule report_convergenceRate)
  with es have code: "convergenceRate rep = ln 2"
    by (simp add: oscillating_code_rate)
  from es have spec: "spec_convergenceRate (map h_convergenceError (r_convergenceHistory rep)) = 0"
    by (simp add: oscillating_spec_rate)
  from es have "length (map h_convergenceError (r_convergenceHistory rep)) = 4"
    by simp
  then have len: "3 \<le> length (r_convergenceHistory rep)" by simp
  have rep: "projr (fst oscillating_run) = rep"
    by (simp add: run)
  have "ln (2 :: real) \<noteq> 0" by simp
  with code spec len show ?thesis
    unfolding rep by simp
qed

end
